theory Spec2Isabelle
  imports Complex_Main
begin

section \<open>Data model (types.ts)\<close>

text \<open>
  The interfaces of the application. An optional field of an interface (\<open>password?\<close>)
  is an \<open>option\<close>: \<open>None\<close> is the absent field. The field \<open>id\<close> of the source is
  \<open>user_id\<close> and \<open>record_id\<close> here, since \<open>id\<close> is the identity function of HOL.
\<close>

datatype Role = Admin | Teacher | Student

record User =
  user_id :: string
  name :: string
  email :: string
  role :: Role
  password :: "string option"
  phone :: "string option"
  address :: "string option"
  specialization :: "string option"
  enrollmentNumber :: "string option"

text \<open>The inline type \<open>{latitude: number, longitude: number}\<close> of a record's location.\<close>

record Position =
  latitude :: real
  longitude :: real

text \<open>
  \<open>Omit<AttendanceRecord, 'id'>\<close>, the candidate record that \<open>processAttendance\<close> builds and
  the pending queue holds. \<open>studentEnrollmentNumber\<close> is \<open>user.enrollmentNumber!\<close>, which is
  absent at run time for a user without an enrollment number, hence an \<open>option\<close>.
\<close>

record AttendanceData =
  studentId :: string
  studentName :: string
  studentEnrollmentNumber :: "string option"
  teacherId :: string
  sessionId :: string
  timestamp :: string
  location :: "Position option"

text \<open>\<open>AttendanceRecord\<close>: the candidate record together with the identity the store gives it.\<close>

record AttendanceRecord = AttendanceData +
  record_id :: string

text \<open>A thrown \<open>Error\<close> with its message.\<close>

datatype js_error = Error string

section \<open>Strings\<close>

text \<open>
  \<open>s.split(sep)\<close> for a one-character separator: the pieces between the occurrences of
  the separator, in order. The result is never empty: the empty string splits into
  \<open>['']\<close>.
\<close>

fun split_on :: "char \<Rightarrow> string \<Rightarrow> string list" where
  "split_on sep [] = [[]]"
| "split_on sep (c # cs) =
     (if c = sep then [] # split_on sep cs
      else (case split_on sep cs of
              [] \<Rightarrow> [[c]]
            | p # ps \<Rightarrow> (c # p) # ps))"

text \<open>The decimal rendering of a non-negative integer in a template literal.\<close>

definition digit_char :: "nat \<Rightarrow> char" where
  "digit_char d = ''0123456789'' ! d"

fun string_of_nat :: "nat \<Rightarrow> string" where
  "string_of_nat n =
     (if n < 10 then [digit_char n]
      else string_of_nat (n div 10) @ [digit_char (n mod 10)])"

declare string_of_nat.simps [simp del]

section \<open>The mock remote store (services/mockApiService.ts)\<close>

text \<open>
  The module-level state of the mock service: the user and attendance arrays, the
  \<open>localStorage\<close> entries that \<open>setStoredData\<close> writes, whether \<open>localStorage.setItem\<close>
  throws (quota exceeded), and the clock: \<open>Date_now k\<close> is what the \<open>k\<close>-th call of
  \<open>Date.now()\<close> returns, \<open>clockReads\<close> counts the calls made so far.
\<close>

record mockApi =
  teachers :: "User list"
  students :: "User list"
  attendanceRecords :: "AttendanceRecord list"
  localStorage :: "string \<Rightarrow> AttendanceRecord list option"
  setItemThrows :: bool
  Date_now :: "nat \<Rightarrow> nat"
  clockReads :: nat

text \<open>
  \<open>setStoredData\<close>: the write is inside \<open>try\<close>, and the \<open>catch\<close> only logs, so a failed
  write leaves the storage as it was and nothing is reported to the caller.
\<close>

definition setStoredData ::
  "bool \<Rightarrow> string \<Rightarrow> 'v \<Rightarrow> (string \<Rightarrow> 'v option) \<Rightarrow> (string \<Rightarrow> 'v option)" where
  "setStoredData throws key v ls = (if throws then ls else ls(key \<mapsto> v))"

definition getStoredData :: "string \<Rightarrow> 'v \<Rightarrow> (string \<Rightarrow> 'v option) \<Rightarrow> 'v" where
  "getStoredData key defaultValue ls =
     (case ls key of Some stored \<Rightarrow> stored | None \<Rightarrow> defaultValue)"

definition MOCK_ADMIN :: User where
  "MOCK_ADMIN =
     \<lparr>user_id = ''admin1'', name = ''Admin User'', email = ''admin@school.com'',
      role = Admin, password = None, phone = None, address = None,
      specialization = None, enrollmentNumber = None\<rparr>"

definition initialTeachers :: "User list" where
  "initialTeachers =
     [\<lparr>user_id = ''teacher1'', name = ''Dr. Evelyn Reed'', email = ''e.reed@school.com'',
       role = Teacher, password = Some ''password123'', phone = Some ''123-456-7890'',
       address = Some ''123 Oak St'', specialization = Some ''Physics'',
       enrollmentNumber = None\<rparr>,
      \<lparr>user_id = ''teacher2'', name = ''Mr. Samuel Chen'', email = ''s.chen@school.com'',
       role = Teacher, password = Some ''password123'', phone = Some ''098-765-4321'',
       address = Some ''456 Pine St'', specialization = Some ''Mathematics'',
       enrollmentNumber = None\<rparr>]"

definition initialStudents :: "User list" where
  "initialStudents =
     [\<lparr>user_id = ''student1'', name = ''Alice Johnson'', email = ''alice.j@school.com'',
       role = Student, password = Some ''password123'', phone = None, address = None,
       specialization = None, enrollmentNumber = Some ''S001''\<rparr>,
      \<lparr>user_id = ''student2'', name = ''Bob Williams'', email = ''bob.w@school.com'',
       role = Student, password = Some ''password123'', phone = None, address = None,
       specialization = None, enrollmentNumber = Some ''S002''\<rparr>,
      \<lparr>user_id = ''student3'', name = ''Charlie Brown'', email = ''charlie.b@school.com'',
       role = Student, password = Some ''password123'', phone = None, address = None,
       specialization = None, enrollmentNumber = Some ''S003''\<rparr>]"

text \<open>
  \<open>mockApiService.login\<close>. \<open>allUsers.find\<close> is the first user whose lower-cased name is
  the lower-cased identifier; \<open>user.password === password\<close> is false for a user without
  a password; the destructuring \<open>{ password, ...userWithoutPassword }\<close> drops the field.
  \<open>toLowerCase\<close> is \<open>String.prototype.toLowerCase\<close>, a function of the platform that folds
  every cased letter: it is a parameter, and nothing is assumed of it.
\<close>

definition login ::
  "(string \<Rightarrow> string) \<Rightarrow> string \<Rightarrow> string \<Rightarrow> mockApi \<Rightarrow> js_error + User" where
  "login toLowerCase identifier pw api =
     (if identifier = ''admin'' \<and> pw = ''123'' then Inr MOCK_ADMIN
      else
        (case find (\<lambda>u. toLowerCase (name u) = toLowerCase identifier)
                (teachers api @ students api) of
           Some user \<Rightarrow>
             if password user = Some pw then Inr (user\<lparr>password := None\<rparr>)
             else Inl (Error ''Invalid credentials'')
         | None \<Rightarrow> Inl (Error ''Invalid credentials'')))"

text \<open>
  \<open>mockApiService.markAttendance\<close>: the new record is the given one with the identity
  \<open>att<Date.now()>\<close>; it is pushed on \<open>attendanceRecords\<close>, and the array is written to
  \<open>localStorage\<close>. The call never rejects.
\<close>

definition markAttendance ::
  "AttendanceData \<Rightarrow> mockApi \<Rightarrow> (js_error + AttendanceRecord) \<times> mockApi" where
  "markAttendance record api =
     (let newRecord =
            AttendanceData.extend record
              (AttendanceRecord.fields (''att'' @ string_of_nat (Date_now api (clockReads api))));
          records = attendanceRecords api @ [newRecord]
      in (Inr newRecord,
          api\<lparr>attendanceRecords := records,
              localStorage :=
                setStoredData (setItemThrows api) ''mock_attendance'' records (localStorage api),
              clockReads := Suc (clockReads api)\<rparr>))"

section \<open>Session codes (TeacherDashboard.tsx)\<close>

text \<open>\<open>generateCode\<close>: the template literal \<open>${user.id}-SESSION-${Date.now()}\<close>.\<close>

definition generateCode :: "User \<Rightarrow> nat \<Rightarrow> string" where
  "generateCode user now = user_id user @ ''-SESSION-'' @ string_of_nat now"

section \<open>The application state\<close>

datatype MessageType = info | success | error

text \<open>
  What a function defined during one render of \<open>QRCodeScanner\<close> closes over: the prop
  \<open>isOffline\<close> and the queue the hook gave in that render.
\<close>

record render =
  render_isOffline :: bool
  render_pendingAttendance :: "AttendanceData list"

text \<open>
  The state the student's scanner and the application shell work on: the connectivity
  flag of \<open>App\<close>, the pending queue kept under the key \<open>pendingAttendance\<close>, whether a
  write of that key fails, the remote store, the batches of the drains that have started
  and whose submissions have not settled yet (oldest first), the \<open>alert\<close>s shown so far,
  the first render of \<open>QRCodeScanner\<close>, and its state variables. The remote store is a
  parameter: a submission is any function from a record and the store's state to a
  result and the new state, and \<open>markAttendance\<close> above is the one of the mock service.
\<close>

record 'st system =
  isOffline :: bool
  pendingAttendance :: "AttendanceData list"
  storageFails :: bool
  remote :: 'st
  inFlight :: "AttendanceData list list"
  alerts :: "string list"
  firstRender :: render
  message :: string
  messageType :: MessageType
  locationError :: "string option"
  pendingScanData :: "string option"
  scanCompleted :: bool

type_synonym 'st submit = "AttendanceData \<Rightarrow> 'st \<Rightarrow> (js_error + AttendanceRecord) \<times> 'st"

text \<open>
  Modelled from the spec: the hook \<open>useLocalStorage\<close> (hooks/useLocalStorage is not among
  the sources). The queue is one ordered sequence persisted under a fixed key; the value
  the hook yields in a render is the persisted sequence at the time of that render, and
  the setter replaces the persisted sequence. A failing write is logged and swallowed (sections 4.4 and 7 of the spec:
  "current behavior logs and swallows"): the persisted sequence stays as it was and the
  caller is told nothing.
\<close>

definition setPendingAttendance :: "AttendanceData list \<Rightarrow> 'st system \<Rightarrow> 'st system" where
  "setPendingAttendance v s = (if storageFails s then s else s\<lparr>pendingAttendance := v\<rparr>)"

text \<open>
  The render of \<open>QRCodeScanner\<close> in the state \<open>s\<close>, and the mounting of the component: the
  state variables get their initial values and the first render is the render of that
  moment.
\<close>

definition currentRender :: "'st system \<Rightarrow> render" where
  "currentRender s =
     \<lparr>render_isOffline = isOffline s, render_pendingAttendance = pendingAttendance s\<rparr>"

definition mountScanner :: "'st system \<Rightarrow> 'st system" where
  "mountScanner s =
     s\<lparr>firstRender := currentRender s,
       message := ''Scan a session QR code to mark attendance.'', messageType := info,
       locationError := None, pendingScanData := None, scanCompleted := False\<rparr>"

section \<open>Capturing attendance (StudentDashboard.tsx, QRCodeScanner)\<close>

text \<open>
  The first half of \<open>processAttendance\<close>: the teacher identity is the first piece of the
  code split at \<open>-\<close>, the session identity is the whole code, and the call throws when
  either is falsy (absent or the empty string). \<open>now_iso\<close> is
  \<open>new Date().toISOString()\<close> at the time of the call.
\<close>

definition attendanceData ::
  "User \<Rightarrow> string \<Rightarrow> Position option \<Rightarrow> string \<Rightarrow> js_error + AttendanceData" where
  "attendanceData user now_iso loc decodedText =
     (let sessionId' = decodedText in
      case split_on CHR ''-'' sessionId' of
        [] \<Rightarrow> Inl (Error ''Invalid QR code format.'')
      | teacherId' # _ \<Rightarrow>
          if teacherId' = [] \<or> sessionId' = [] then Inl (Error ''Invalid QR code format.'')
          else Inr \<lparr>studentId = user_id user, studentName = name user,
                    studentEnrollmentNumber = enrollmentNumber user,
                    teacherId = teacherId', sessionId = sessionId',
                    timestamp = now_iso, location = loc\<rparr>)"

text \<open>
  \<open>processAttendance\<close> as the render \<open>r\<close> defines it: \<open>isOffline\<close> and \<open>pendingAttendance\<close> in
  its body are the values of that render. Offline, the queue is set to the render's
  queue with the record appended; online, the record is submitted, and a rejected
  submission is rethrown. The result is the error thrown, if any, and the state after
  the call.
\<close>

definition processAttendance ::
  "'st submit \<Rightarrow> User \<Rightarrow> render \<Rightarrow> string \<Rightarrow> Position option \<Rightarrow> string \<Rightarrow> 'st system
     \<Rightarrow> (js_error + unit) \<times> 'st system" where
  "processAttendance submit user r now_iso loc decodedText s =
     (case attendanceData user now_iso loc decodedText of
        Inl e \<Rightarrow> (Inl e, s)
      | Inr d \<Rightarrow>
          if render_isOffline r then
            (Inr (),
             (setPendingAttendance (render_pendingAttendance r @ [d]) s)
               \<lparr>message := (if loc = None
                             then ''Offline. Attendance saved locally (no location).''
                             else ''You are offline. Attendance saved locally.''),
                messageType := success\<rparr>)
          else
            (case submit d (remote s) of
               (Inl e, st) \<Rightarrow> (Inl e, s\<lparr>remote := st\<rparr>)
             | (Inr _, st) \<Rightarrow>
                 (Inr (),
                  s\<lparr>remote := st,
                    message := (if loc = None
                                then ''Success! Attendance marked without location.''
                                else ''Attendance marked successfully!''),
                    messageType := success\<rparr>)))"

text \<open>
  \<open>onScanSuccess\<close>. The scanner is started once, in an effect with no dependencies, and
  is given the \<open>onScanSuccess\<close> of the first render; that is the function every scan
  calls. Its guard reads the first render's \<open>locationError\<close> and \<open>scanCompleted\<close>, which are
  the initial values \<open>null\<close> and \<open>false\<close>, and its \<open>processAttendance\<close> is the first
  render's. The setters act on the state of the moment. \<open>position\<close> is the outcome of
  \<open>locationService.getCurrentPosition()\<close>: the coordinates, or the error it rejects
  with. An error of either the location service or \<open>processAttendance\<close> lands in the
  same \<open>catch\<close>.
\<close>

definition truthy :: "string option \<Rightarrow> bool" where
  "truthy v = (case v of None \<Rightarrow> False | Some t \<Rightarrow> t \<noteq> [])"

definition onScanSuccess ::
  "'st submit \<Rightarrow> User \<Rightarrow> string \<Rightarrow> js_error + Position \<Rightarrow> string \<Rightarrow> 'st system
     \<Rightarrow> 'st system" where
  "onScanSuccess submit user now_iso position decodedText s =
     (let locationError' = None; scanCompleted' = False in
      if truthy locationError' \<or> scanCompleted' then s
      else
        (let s1 = s\<lparr>message := ''QR code scanned. Getting location...'', messageType := info\<rparr>
         in case position of
              Inl (Error m) \<Rightarrow> s1\<lparr>locationError := Some m, pendingScanData := Some decodedText\<rparr>
            | Inr p \<Rightarrow>
                (case processAttendance submit user (firstRender s) now_iso (Some p)
                        decodedText s1 of
                   (Inr _, s2) \<Rightarrow> s2\<lparr>scanCompleted := True\<rparr>
                 | (Inl (Error m), s2) \<Rightarrow>
                     s2\<lparr>locationError := Some m, pendingScanData := Some decodedText\<rparr>)))"

text \<open>
  \<open>handleMarkWithoutLocation\<close>: the pending scan is processed with location \<open>null\<close>. The
  button is given the handler of the render that shows it, so the \<open>processAttendance\<close> it
  calls is the current render's.
\<close>

definition handleMarkWithoutLocation ::
  "'st submit \<Rightarrow> User \<Rightarrow> string \<Rightarrow> 'st system \<Rightarrow> 'st system" where
  "handleMarkWithoutLocation submit user now_iso s =
     (case pendingScanData s of
        None \<Rightarrow> s
      | Some code \<Rightarrow>
          if code = [] then s
          else
            (case processAttendance submit user (currentRender s) now_iso None code
                    (s\<lparr>locationError := None\<rparr>) of
               (Inr _, s2) \<Rightarrow> s2\<lparr>scanCompleted := True, pendingScanData := None\<rparr>
             | (Inl (Error m), s2) \<Rightarrow>
                 s2\<lparr>message := ''Error: '' @ m, messageType := error,
                    pendingScanData := None\<rparr>))"

definition handleResumeScanning :: "'st system \<Rightarrow> 'st system" where
  "handleResumeScanning s =
     s\<lparr>scanCompleted := False, message := ''Scan a session QR code to mark attendance.'',
       messageType := info\<rparr>"

section \<open>Synchronising the queue (App.tsx)\<close>

text \<open>
  \<open>Promise.all(xs.map(f))\<close>: every call is made, in the order of the list, whatever the
  others do; the result is the list of the values when all of them fulfil, and the first
  rejection otherwise.
\<close>

fun Promise_all ::
  "('a \<Rightarrow> 'st \<Rightarrow> (js_error + 'b) \<times> 'st) \<Rightarrow> 'a list \<Rightarrow> 'st \<Rightarrow> (js_error + 'b list) \<times> 'st" where
  "Promise_all f [] st = (Inr [], st)"
| "Promise_all f (x # xs) st =
     (case f x st of
        (r, st1) \<Rightarrow>
          (case Promise_all f xs st1 of
             (rs, st2) \<Rightarrow>
               (case r of
                  Inl e \<Rightarrow> Inl e
                | Inr y \<Rightarrow> (case rs of Inl e \<Rightarrow> Inl e | Inr ys \<Rightarrow> Inr (y # ys)),
                st2)))"

text \<open>
  The body of the \<open>try\<close> of \<open>syncOfflineData\<close> for the batch it has mapped over: the
  submissions run, and when all have fulfilled the queue is set to \<open>[]\<close>; the \<open>catch\<close>
  leaves the queue alone. \<open>s\<close> is the state in which the submissions settle: the batch
  was read before the \<open>await\<close>, and the handlers of other events may have run since.
\<close>

definition settle :: "'st submit \<Rightarrow> AttendanceData list \<Rightarrow> 'st system \<Rightarrow> 'st system" where
  "settle submit batch s =
     (case Promise_all submit batch (remote s) of
        (Inr syncedRecords, st) \<Rightarrow>
          (setPendingAttendance [] (s\<lparr>remote := st\<rparr>))
            \<lparr>alerts := alerts s @ [''Offline attendance records have been synced.'']\<rparr>
      | (Inl e, st) \<Rightarrow>
          s\<lparr>remote := st,
            alerts := alerts s @ [''Could not sync all offline data. Will try again later.'']\<rparr>)"

text \<open>
  \<open>syncOfflineData\<close> up to its \<open>await\<close>: under the guard, the submissions of the queue of
  the moment are started, and their batch is in flight until they settle.
\<close>

definition syncOfflineData_start :: "'st system \<Rightarrow> 'st system" where
  "syncOfflineData_start s =
     (if length (pendingAttendance s) > 0 \<and> \<not> isOffline s
      then s\<lparr>inFlight := inFlight s @ [pendingAttendance s]\<rparr>
      else s)"

text \<open>
  The whole of \<open>syncOfflineData\<close> when no other event comes between its start and its
  end.
\<close>

definition syncOfflineData :: "'st submit \<Rightarrow> 'st system \<Rightarrow> 'st system" where
  "syncOfflineData submit s =
     (if length (pendingAttendance s) > 0 \<and> \<not> isOffline s
      then settle submit (pendingAttendance s) s
      else s)"

text \<open>
  The effect with the dependencies \<open>[isOffline, syncOfflineData]\<close>: it calls
  \<open>syncOfflineData\<close> when the application is online. It runs after the first render, and
  after a render in which the flag or the queue has changed (\<open>afterRender\<close>, from the
  state before an event to the state after it).
\<close>

definition syncEffect :: "'st system \<Rightarrow> 'st system" where
  "syncEffect s = (if \<not> isOffline s then syncOfflineData_start s else s)"

definition afterRender :: "'st system \<Rightarrow> 'st system \<Rightarrow> 'st system" where
  "afterRender before after =
     (if isOffline after = isOffline before
         \<and> pendingAttendance after = pendingAttendance before
      then after
      else syncEffect after)"

text \<open>
  The two connectivity events, each the handler followed by the effect, and the settling
  of the oldest drain in flight, followed by the effect as well.
\<close>

definition handleOnline :: "'st system \<Rightarrow> 'st system" where
  "handleOnline s = afterRender s (s\<lparr>isOffline := False\<rparr>)"

definition handleOffline :: "'st system \<Rightarrow> 'st system" where
  "handleOffline s = afterRender s (s\<lparr>isOffline := True\<rparr>)"

definition settleNext :: "'st submit \<Rightarrow> 'st system \<Rightarrow> 'st system" where
  "settleNext submit s =
     (case inFlight s of
        [] \<Rightarrow> s
      | batch # rest \<Rightarrow> afterRender s (settle submit batch (s\<lparr>inFlight := rest\<rparr>)))"

section \<open>Submissions\<close>

text \<open>
  The outcomes of the calls that \<open>Promise.all(xs.map(f))\<close> makes, one for each element, in
  the order of the list.
\<close>

fun submissions ::
  "('a \<Rightarrow> 'st \<Rightarrow> (js_error + 'b) \<times> 'st) \<Rightarrow> 'a list \<Rightarrow> 'st \<Rightarrow> (js_error + 'b) list" where
  "submissions f [] st = []"
| "submissions f (x # xs) st = (case f x st of (r, st1) \<Rightarrow> r # submissions f xs st1)"

text \<open>
  The mock store behind a network that loses some requests: a submission for which
  \<open>reaches\<close> is false is rejected and never gets to the store, the others are
  \<open>markAttendance\<close>.
\<close>

definition unreliable :: "(AttendanceData \<Rightarrow> bool) \<Rightarrow> mockApi submit" where
  "unreliable reaches record api =
     (if reaches record then markAttendance record api
      else (Inl (Error ''Failed to fetch''), api))"

section \<open>Initial and example states\<close>

text \<open>
  \<open>initialSystem\<close> is the state of the application when it starts with nothing queued
  and the scanner mounted: the initial values of the state variables of \<open>App\<close> and
  \<open>QRCodeScanner\<close>, and no drain in flight. \<open>exampleApi\<close>
  is a state of the mock service for the examples: the initial teachers and students,
  and an attendance array that is empty. \<open>exampleClock\<close> is a clock whose readings
  advance by one millisecond each, \<open>stoppedClock\<close> one that gives the same reading
  every time.
\<close>

definition exampleClock :: "nat \<Rightarrow> nat" where
  "exampleClock k = 1700000000500 + k"

definition exampleApi :: "(nat \<Rightarrow> nat) \<Rightarrow> mockApi" where
  "exampleApi clock =
     \<lparr>teachers = initialTeachers, students = initialStudents, attendanceRecords = [],
      localStorage = (\<lambda>key. None), setItemThrows = False, Date_now = clock,
      clockReads = 0\<rparr>"

definition initialSystem :: "bool \<Rightarrow> 'st \<Rightarrow> 'st system" where
  "initialSystem offline api =
     \<lparr>isOffline = offline, pendingAttendance = [], storageFails = False, remote = api,
      inFlight = [], alerts = [],
      firstRender = \<lparr>render_isOffline = offline, render_pendingAttendance = []\<rparr>,
      message = ''Scan a session QR code to mark attendance.'',
      messageType = info, locationError = None, pendingScanData = None,
      scanCompleted = False\<rparr>"

definition stoppedClock :: "nat \<Rightarrow> nat" where
  "stoppedClock k = 1700000000500"

definition alice :: User where
  "alice =
     \<lparr>user_id = ''student1'', name = ''Alice Johnson'', email = ''alice.j@school.com'',
      role = Student, password = None, phone = None, address = None,
      specialization = None, enrollmentNumber = Some ''S001''\<rparr>"

text \<open>Three records as three students capture them, without location, in one session.\<close>

definition pendingOf :: "string \<Rightarrow> string \<Rightarrow> string \<Rightarrow> AttendanceData" where
  "pendingOf sid sname enrollment =
     \<lparr>studentId = sid, studentName = sname, studentEnrollmentNumber = Some enrollment,
      teacherId = ''teacher1'', sessionId = ''teacher1-SESSION-1700000000000'',
      timestamp = ''2023-11-14T22:13:20.000Z'', location = None\<rparr>"

definition exampleQueue :: "AttendanceData list" where
  "exampleQueue =
     [pendingOf ''student1'' ''Alice Johnson'' ''S001'',
      pendingOf ''student2'' ''Bob Williams'' ''S002'',
      pendingOf ''student3'' ''Charlie Brown'' ''S003'']"

text \<open>A network that loses the submissions of one student and no others.\<close>

definition reachesAllBut :: "string \<Rightarrow> AttendanceData \<Rightarrow> bool" where
  "reachesAllBut sid record = (studentId record \<noteq> sid)"

text \<open>
  A lower-casing for the examples, whose names are written in ASCII: the letters A to Z
  are folded and every other character is kept.
\<close>

definition asciiLowerCase :: "string \<Rightarrow> string" where
  "asciiLowerCase s =
     map (\<lambda>c. case map_of (zip ''ABCDEFGHIJKLMNOPQRSTUVWXYZ'' ''abcdefghijklmnopqrstuvwxyz'') c of
                 Some l \<Rightarrow> l
               | None \<Rightarrow> c) s"

text \<open>
  Two located scans while offline. The application starts offline with nothing queued
  and the scanner mounted; Alice scans the code of a session of \<open>teacher1\<close>, resumes the
  scanner, and ten minutes later scans the code of a session of \<open>teacher2\<close>, the location
  being given both times. \<open>firstRecord\<close> and \<open>secondRecord\<close> are the records built for the
  two scans.
\<close>

definition examplePosition :: Position where
  "examplePosition = \<lparr>latitude = 34.0522, longitude = -118.2437\<rparr>"

definition firstRecord :: AttendanceData where
  "firstRecord =
     \<lparr>studentId = ''student1'', studentName = ''Alice Johnson'',
      studentEnrollmentNumber = Some ''S001'', teacherId = ''teacher1'',
      sessionId = ''teacher1-SESSION-1700000000000'',
      timestamp = ''2023-11-14T22:13:20.000Z'', location = Some examplePosition\<rparr>"

definition secondRecord :: AttendanceData where
  "secondRecord =
     \<lparr>studentId = ''student1'', studentName = ''Alice Johnson'',
      studentEnrollmentNumber = Some ''S001'', teacherId = ''teacher2'',
      sessionId = ''teacher2-SESSION-1700000600000'',
      timestamp = ''2023-11-14T22:23:20.000Z'', location = Some examplePosition\<rparr>"

definition afterFirstScan :: "mockApi system" where
  "afterFirstScan =
     onScanSuccess markAttendance alice ''2023-11-14T22:13:20.000Z'' (Inr examplePosition)
       ''teacher1-SESSION-1700000000000'' (initialSystem True (exampleApi exampleClock))"

definition afterSecondScan :: "mockApi system" where
  "afterSecondScan =
     onScanSuccess markAttendance alice ''2023-11-14T22:23:20.000Z'' (Inr examplePosition)
       ''teacher2-SESSION-1700000600000'' (handleResumeScanning afterFirstScan)"

text \<open>
  A capture during a drain. The application starts online with one record in the
  persisted queue, and the effect of the first render starts the drain. Before the
  submission settles the application goes offline; Alice scans the code of a session of
  \<open>teacher2\<close>, is denied the location and marks without it (\<open>unlocatedRecord\<close> is the
  record built). Then the drain settles.
\<close>

definition unlocatedRecord :: AttendanceData where
  "unlocatedRecord =
     \<lparr>studentId = ''student1'', studentName = ''Alice Johnson'',
      studentEnrollmentNumber = Some ''S001'', teacherId = ''teacher2'',
      sessionId = ''teacher2-SESSION-1700000600000'',
      timestamp = ''2023-11-14T22:23:20.000Z'', location = None\<rparr>"

definition drainStarted :: "mockApi system" where
  "drainStarted =
     syncEffect (mountScanner ((initialSystem False (exampleApi exampleClock))
       \<lparr>pendingAttendance := [pendingOf ''student1'' ''Alice Johnson'' ''S001'']\<rparr>))"

definition capturedDuringDrain :: "mockApi system" where
  "capturedDuringDrain =
     handleMarkWithoutLocation markAttendance alice ''2023-11-14T22:23:20.000Z''
       (onScanSuccess markAttendance alice ''2023-11-14T22:23:19.000Z''
          (Inl (Error ''User denied Geolocation'')) ''teacher2-SESSION-1700000600000''
          (handleOffline drainStarted))"

text \<open>The application starts online with three records in the persisted queue.\<close>

definition startedOnline :: "mockApi system" where
  "startedOnline =
     mountScanner ((initialSystem False (exampleApi exampleClock))
       \<lparr>pendingAttendance := exampleQueue\<rparr>)"

section \<open>Session codes and the record builder\<close>

lemma split_on_hd: "\<exists>ps. split_on sep s = takeWhile (\<lambda>c. c \<noteq> sep) s # ps"
  by (induction s) auto

lemma attendanceData_eq:
  "attendanceData user now_iso loc code =
     (if takeWhile (\<lambda>c. c \<noteq> CHR ''-'') code = [] then Inl (Error ''Invalid QR code format.'')
      else Inr \<lparr>studentId = user_id user, studentName = name user,
                studentEnrollmentNumber = enrollmentNumber user,
                teacherId = takeWhile (\<lambda>c. c \<noteq> CHR ''-'') code, sessionId = code,
                timestamp = now_iso, location = loc\<rparr>)"
proof -
  obtain ps where "split_on CHR ''-'' code = takeWhile (\<lambda>c. c \<noteq> CHR ''-'') code # ps"
    using split_on_hd by blast
  then show ?thesis
    by (cases code) (auto simp: attendanceData_def Let_def)
qed

lemma takeWhile_prefix_sep:
  "sep \<notin> set T \<Longrightarrow> takeWhile (\<lambda>c. c \<noteq> sep) (T @ sep # rest) = T"
  by (induction T) auto

lemma takeWhile_empty_iff:
  "takeWhile (\<lambda>c. c \<noteq> sep) code = [] \<longleftrightarrow> code = [] \<or> (\<exists>rest. code = sep # rest)"
  by (cases code) auto

text \<open>
  Claim C3. For a session code \<open>T-SESSION-<ts>\<close> whose teacher identity \<open>T\<close> is not empty
  and has no \<open>-\<close> in it (the identities the service gives are \<open>teacher1\<close>, \<open>teacher2\<close> and
  \<open>teacher<millis>\<close>), the record built has the teacher identity \<open>T\<close> exactly and the whole
  code as its session identity. For every code that is accepted, the teacher identity is
  the text before the first \<open>-\<close> and the session identity is the code.
\<close>

theorem session_code_teacher_identity:
  assumes "T \<noteq> []" and "CHR ''-'' \<notin> set T"
  shows "attendanceData user now_iso loc (T @ ''-SESSION-'' @ ts) =
           Inr \<lparr>studentId = user_id user, studentName = name user,
                studentEnrollmentNumber = enrollmentNumber user,
                teacherId = T, sessionId = T @ ''-SESSION-'' @ ts,
                timestamp = now_iso, location = loc\<rparr>
         \<and> (\<forall>d. attendanceData user now_iso loc code = Inr d \<longrightarrow>
                teacherId d = takeWhile (\<lambda>c. c \<noteq> CHR ''-'') code \<and> sessionId d = code)"
proof -
  have "takeWhile (\<lambda>c. c \<noteq> CHR ''-'') (T @ ''-SESSION-'' @ ts) = T"
    using takeWhile_prefix_sep [OF assms(2), of "''SESSION-'' @ ts"] by simp
  with assms(1) show ?thesis
    by (auto simp: attendanceData_eq split: if_splits)
qed

text \<open>
  The code that \<open>generateCode\<close> gives for the teacher \<open>teacher1\<close> at the clock reading
  1700000000000, scanned by the student Alice.
\<close>

theorem session_code_teacher_identity_witness:
  "attendanceData alice ''2023-11-14T22:13:20.000Z'' None
     (generateCode (initialTeachers ! 0) 1700000000000) =
     Inr \<lparr>studentId = ''student1'', studentName = ''Alice Johnson'',
          studentEnrollmentNumber = Some ''S001'',
          teacherId = ''teacher1'', sessionId = ''teacher1-SESSION-1700000000000'',
          timestamp = ''2023-11-14T22:13:20.000Z'', location = None\<rparr>"
proof -
  have c: "generateCode (initialTeachers ! 0) 1700000000000 =
             ''teacher1'' @ ''-SESSION-'' @ ''1700000000000''"
    by (simp add: generateCode_def initialTeachers_def string_of_nat.simps digit_char_def)
  have h1: "''teacher1'' \<noteq> []" by simp
  have h2: "CHR ''-'' \<notin> set ''teacher1''" by simp
  show ?thesis
    using session_code_teacher_identity
      [OF h1 h2, of alice "''2023-11-14T22:13:20.000Z''" None "''1700000000000''"]
    unfolding c by (simp add: alice_def)
qed

lemma takeWhile_no_sep: "sep \<notin> set code \<Longrightarrow> takeWhile (\<lambda>c. c \<noteq> sep) code = code"
  by (induction code) auto

text \<open>
  Claim C4, as the code has it. Building a record fails, with the error
  \<open>Invalid QR code format.\<close>, exactly for the codes whose text before the first \<open>-\<close> is
  empty: the empty code and the codes that begin with \<open>-\<close>. For such a code
  \<open>processAttendance\<close>, of whatever render, throws before it queues or submits anything,
  so the state is unchanged. A code that is not empty and has no \<open>-\<close> is accepted: the whole code is
  both the teacher identity and the session identity.
\<close>

theorem malformed_code_rejected:
  "(attendanceData user now_iso loc code = Inl (Error ''Invalid QR code format.''))
      = (code = [] \<or> (\<exists>rest. code = CHR ''-'' # rest))
   \<and> (code = [] \<or> (\<exists>rest. code = CHR ''-'' # rest) \<longrightarrow>
        processAttendance submit user r now_iso loc code s =
          (Inl (Error ''Invalid QR code format.''), s))
   \<and> (code \<noteq> [] \<and> CHR ''-'' \<notin> set code \<longrightarrow>
        attendanceData user now_iso loc code =
          Inr \<lparr>studentId = user_id user, studentName = name user,
               studentEnrollmentNumber = enrollmentNumber user,
               teacherId = code, sessionId = code,
               timestamp = now_iso, location = loc\<rparr>)"
proof (intro conjI impI)
  show "(attendanceData user now_iso loc code = Inl (Error ''Invalid QR code format.''))
          = (code = [] \<or> (\<exists>rest. code = CHR ''-'' # rest))"
    by (simp add: attendanceData_eq takeWhile_empty_iff)
next
  assume "code = [] \<or> (\<exists>rest. code = CHR ''-'' # rest)"
  then have "attendanceData user now_iso loc code = Inl (Error ''Invalid QR code format.'')"
    by (simp add: attendanceData_eq takeWhile_empty_iff)
  then show "processAttendance submit user r now_iso loc code s =
               (Inl (Error ''Invalid QR code format.''), s)"
    by (simp add: processAttendance_def)
next
  assume "code \<noteq> [] \<and> CHR ''-'' \<notin> set code"
  then show "attendanceData user now_iso loc code =
          Inr \<lparr>studentId = user_id user, studentName = name user,
               studentEnrollmentNumber = enrollmentNumber user,
               teacherId = code, sessionId = code,
               timestamp = now_iso, location = loc\<rparr>"
    by (simp add: attendanceData_eq takeWhile_no_sep)
qed

text \<open>The empty code, a code that begins with the separator, and a code without one.\<close>

theorem malformed_code_rejected_witness:
  "processAttendance markAttendance alice
       (currentRender (initialSystem True (exampleApi exampleClock)))
       ''2023-11-14T22:13:20.000Z'' None [] (initialSystem True (exampleApi exampleClock)) =
     (Inl (Error ''Invalid QR code format.''), initialSystem True (exampleApi exampleClock))
   \<and> processAttendance markAttendance alice
       (currentRender (initialSystem False (exampleApi exampleClock)))
       ''2023-11-14T22:13:20.000Z'' None ''-SESSION-1700000000000''
       (initialSystem False (exampleApi exampleClock)) =
     (Inl (Error ''Invalid QR code format.''), initialSystem False (exampleApi exampleClock))
   \<and> attendanceData alice ''2023-11-14T22:13:20.000Z'' None ''teacher1'' =
       Inr \<lparr>studentId = ''student1'', studentName = ''Alice Johnson'',
            studentEnrollmentNumber = Some ''S001'',
            teacherId = ''teacher1'', sessionId = ''teacher1'',
            timestamp = ''2023-11-14T22:13:20.000Z'', location = None\<rparr>"
  using malformed_code_rejected [of alice "''2023-11-14T22:13:20.000Z''" None "[]"
          markAttendance "currentRender (initialSystem True (exampleApi exampleClock))"
          "initialSystem True (exampleApi exampleClock)"]
        malformed_code_rejected [of alice "''2023-11-14T22:13:20.000Z''" None
          "''-SESSION-1700000000000''" markAttendance
          "currentRender (initialSystem False (exampleApi exampleClock))"
          "initialSystem False (exampleApi exampleClock)"]
        malformed_code_rejected [of alice "''2023-11-14T22:13:20.000Z''" None "''teacher1''"]
  by (simp add: alice_def)

text \<open>
  A code without a separator is not rejected: scanned offline, \<open>PHYS101\<close> is queued with
  the teacher identity \<open>PHYS101\<close>.
\<close>

theorem separator_less_code_accepted:
  "CHR ''-'' \<notin> set ''PHYS101''
   \<and> fst (processAttendance markAttendance alice
            (currentRender (initialSystem True (exampleApi exampleClock)))
            ''2023-11-14T22:13:20.000Z'' None ''PHYS101''
            (initialSystem True (exampleApi exampleClock))) = Inr ()
   \<and> pendingAttendance
        (snd (processAttendance markAttendance alice
               (currentRender (initialSystem True (exampleApi exampleClock)))
               ''2023-11-14T22:13:20.000Z'' None ''PHYS101''
               (initialSystem True (exampleApi exampleClock)))) =
       [\<lparr>studentId = ''student1'', studentName = ''Alice Johnson'',
         studentEnrollmentNumber = Some ''S001'',
         teacherId = ''PHYS101'', sessionId = ''PHYS101'',
         timestamp = ''2023-11-14T22:13:20.000Z'', location = None\<rparr>]"
  by (simp add: processAttendance_def attendanceData_def Let_def initialSystem_def
        currentRender_def setPendingAttendance_def alice_def)

section \<open>Login\<close>

lemma find_Some_mem: "find P xs = Some x \<Longrightarrow> x \<in> set xs \<and> P x"
  by (induction xs) (auto split: if_splits)

text \<open>
  Claim C10. Every successful login returns a user without a password field: the
  hard-coded administrator has none, and a teacher or student who is found by name,
  whatever the case of the letters, and whose stored password is the one given, is
  returned with the password removed. This holds whatever the lower-casing of the
  platform does.
\<close>

theorem login_strips_password:
  assumes "login toLowerCase identifier pw api = Inr u"
  shows "password u = None
         \<and> (u = MOCK_ADMIN
            \<or> (\<exists>stored. stored \<in> set (teachers api @ students api)
                 \<and> toLowerCase (name stored) = toLowerCase identifier
                 \<and> password stored = Some pw
                 \<and> u = stored\<lparr>password := None\<rparr>))"
proof (cases "identifier = ''admin'' \<and> pw = ''123''")
  case True
  with assms have "u = MOCK_ADMIN" by (simp add: login_def)
  then show ?thesis by (simp add: MOCK_ADMIN_def)
next
  case False
  with assms obtain stored where
    f: "find (\<lambda>x. toLowerCase (name x) = toLowerCase identifier) (teachers api @ students api)
          = Some stored"
    and p: "password stored = Some pw" and u: "u = stored\<lparr>password := None\<rparr>"
    by (auto simp: login_def split: option.splits if_splits)
  from find_Some_mem [OF f] have "stored \<in> set (teachers api @ students api)"
    and "toLowerCase (name stored) = toLowerCase identifier"
    by blast+
  with p u show ?thesis by auto
qed

text \<open>Alice logs in with her name in another case; the administrator logs in.\<close>

theorem login_strips_password_witness:
  "login asciiLowerCase ''alice JOHNSON'' ''password123'' (exampleApi exampleClock) = Inr alice
   \<and> password alice = None
   \<and> login asciiLowerCase ''admin'' ''123'' (exampleApi exampleClock) = Inr MOCK_ADMIN
   \<and> password MOCK_ADMIN = None"
proof -
  have a: "login asciiLowerCase ''alice JOHNSON'' ''password123'' (exampleApi exampleClock)
             = Inr alice"
    by (simp add: login_def exampleApi_def initialTeachers_def initialStudents_def
          asciiLowerCase_def alice_def)
  have b: "login asciiLowerCase ''admin'' ''123'' (exampleApi exampleClock) = Inr MOCK_ADMIN"
    by (simp add: login_def)
  from login_strips_password [OF a] login_strips_password [OF b] a b show ?thesis by simp
qed

section \<open>The pending queue and its synchronisation\<close>

subsection \<open>The mock store\<close>

lemma truncate_extend [simp]:
  "AttendanceData.truncate (AttendanceData.extend d (AttendanceRecord.fields i)) = d"
  by (simp add: AttendanceData.defs)

lemma record_id_extend [simp]:
  "record_id (AttendanceData.extend d (AttendanceRecord.fields i)) = i"
  by (simp add: AttendanceData.defs AttendanceRecord.defs)

lemma markAttendance_fst: "fst (markAttendance d api) =
   Inr (AttendanceData.extend d
      (AttendanceRecord.fields (''att'' @ string_of_nat (Date_now api (clockReads api)))))"
  by (simp add: markAttendance_def Let_def)

lemma markAttendance_snd:
  "attendanceRecords (snd (markAttendance d api)) = attendanceRecords api @
     [AttendanceData.extend d
      (AttendanceRecord.fields (''att'' @ string_of_nat (Date_now api (clockReads api))))]"
  "Date_now (snd (markAttendance d api)) = Date_now api"
  "clockReads (snd (markAttendance d api)) = Suc (clockReads api)"
  "teachers (snd (markAttendance d api)) = teachers api"
  "students (snd (markAttendance d api)) = students api"
  by (simp_all add: markAttendance_def Let_def)

lemma Promise_all_markAttendance:
  "\<exists>recs. fst (Promise_all markAttendance q api) = Inr recs
      \<and> attendanceRecords (snd (Promise_all markAttendance q api)) = attendanceRecords api @ recs
      \<and> map AttendanceData.truncate recs = q
      \<and> map record_id recs =
          map (\<lambda>k. ''att'' @ string_of_nat (Date_now api (clockReads api + k))) [0..<length q]
      \<and> Date_now (snd (Promise_all markAttendance q api)) = Date_now api
      \<and> clockReads (snd (Promise_all markAttendance q api)) = clockReads api + length q"
proof (induction q arbitrary: api)
  case Nil
  show ?case by simp
next
  case (Cons d q)
  obtain r api1 where m: "markAttendance d api = (r, api1)" by (cases "markAttendance d api")
  from Cons.IH [of api1] obtain recs where
    ih: "fst (Promise_all markAttendance q api1) = Inr recs"
      "attendanceRecords (snd (Promise_all markAttendance q api1)) = attendanceRecords api1 @ recs"
      "map AttendanceData.truncate recs = q"
      "map record_id recs =
          map (\<lambda>k. ''att'' @ string_of_nat (Date_now api1 (clockReads api1 + k))) [0..<length q]"
      "Date_now (snd (Promise_all markAttendance q api1)) = Date_now api1"
      "clockReads (snd (Promise_all markAttendance q api1)) = clockReads api1 + length q"
    by blast
  let ?x = "AttendanceData.extend d
      (AttendanceRecord.fields (''att'' @ string_of_nat (Date_now api (clockReads api))))"
  from m markAttendance_fst [of d api] have r: "r = Inr ?x" by simp
  from m markAttendance_snd [of d api] have a1:
    "attendanceRecords api1 = attendanceRecords api @ [?x]"
    "Date_now api1 = Date_now api" "clockReads api1 = Suc (clockReads api)" by simp_all
  obtain rs st2 where p: "Promise_all markAttendance q api1 = (rs, st2)"
    by (cases "Promise_all markAttendance q api1")
  with ih have rs: "rs = Inr recs" by simp
  have ids: "map (\<lambda>k. ''att'' @ string_of_nat (Date_now api (clockReads api + k))) [0..<length (d # q)]
     = (''att'' @ string_of_nat (Date_now api (clockReads api))) #
        map (\<lambda>k. ''att'' @ string_of_nat (Date_now api1 (clockReads api1 + k))) [0..<length q]"
  proof -
    have "[0..<length (d # q)] = 0 # map Suc [0..<length q]"
      by (simp add: upt_conv_Cons map_Suc_upt del: upt_Suc)
    then show ?thesis by (simp add: a1 comp_def del: upt_Suc)
  qed
  show ?case
    apply (rule exI [of _ "?x # recs"])
    using ih p a1 ids by (simp add: m r rs del: upt_Suc)
qed


subsection \<open>Promise.all\<close>

lemma Promise_all_snd:
  "snd (Promise_all f (x # xs) st) = snd (Promise_all f xs (snd (f x st)))"
  by (simp split: prod.splits)

lemma length_submissions [simp]: "length (submissions f xs st) = length xs"
  by (induction xs arbitrary: st) (auto split: prod.splits)

lemma Promise_all_rejects_iff:
  "isl (fst (Promise_all f xs st)) \<longleftrightarrow> (\<exists>r \<in> set (submissions f xs st). isl r)"
proof (induction xs arbitrary: st)
  case Nil
  show ?case by simp
next
  case (Cons x xs)
  obtain r st1 where f: "f x st = (r, st1)" by (cases "f x st")
  obtain rs st2 where p: "Promise_all f xs st1 = (rs, st2)" by (cases "Promise_all f xs st1")
  from Cons.IH [of st1] p have "isl rs \<longleftrightarrow> (\<exists>r \<in> set (submissions f xs st1). isl r)" by simp
  then show ?case
    by (cases r; cases rs) (simp_all add: f p)
qed

subsection \<open>Draining\<close>

lemma settle_fulfilled:
  assumes "fst (Promise_all submit batch (remote s)) = Inr ys" and "\<not> storageFails s"
  shows "pendingAttendance (settle submit batch s) = []"
    and "remote (settle submit batch s) = snd (Promise_all submit batch (remote s))"
    and "isOffline (settle submit batch s) = isOffline s"
  using assms by (auto simp: settle_def setPendingAttendance_def split: prod.splits sum.splits)

lemma settle_rejected:
  assumes "fst (Promise_all submit batch (remote s)) = Inl e"
  shows "pendingAttendance (settle submit batch s) = pendingAttendance s"
    and "remote (settle submit batch s) = snd (Promise_all submit batch (remote s))"
    and "isOffline (settle submit batch s) = isOffline s"
  using assms by (auto simp: settle_def split: prod.splits sum.splits)

lemma settle_keeps_on_rejection:
  assumes "\<exists>r \<in> set (submissions submit batch (remote s)). isl r"
  shows "pendingAttendance (settle submit batch s) = pendingAttendance s"
proof -
  from assms Promise_all_rejects_iff [of submit batch "remote s"]
  obtain e where "fst (Promise_all submit batch (remote s)) = Inl e"
    by (cases "fst (Promise_all submit batch (remote s))") auto
  from settle_rejected(1) [OF this] show ?thesis .
qed

lemma settle_flags:
  "isOffline (settle submit batch s) = isOffline s"
  "storageFails (settle submit batch s) = storageFails s"
  "inFlight (settle submit batch s) = inFlight s"
  by (auto simp: settle_def setPendingAttendance_def split: prod.splits sum.splits)

lemma settle_remote:
  "remote (settle submit batch s) = snd (Promise_all submit batch (remote s))"
  by (auto simp: settle_def setPendingAttendance_def split: prod.splits sum.splits)

lemma settle_queue_cases:
  "pendingAttendance (settle submit batch s) = pendingAttendance s
     \<or> pendingAttendance (settle submit batch s) = []"
  by (auto simp: settle_def setPendingAttendance_def split: prod.splits sum.splits)

lemma afterRender_settle:
  assumes "isOffline b = isOffline s" and "pendingAttendance b = pendingAttendance s"
  shows "afterRender b (settle submit batch s) = settle submit batch s"
  using assms settle_queue_cases [of submit batch s] settle_flags(1) [of submit batch s]
  by (auto simp: afterRender_def syncEffect_def syncOfflineData_start_def)

lemma handleOnline_eq:
  "handleOnline s =
     (if isOffline s \<and> pendingAttendance s \<noteq> []
      then s\<lparr>isOffline := False, inFlight := inFlight s @ [pendingAttendance s]\<rparr>
      else s\<lparr>isOffline := False\<rparr>)"
proof -
  have "s\<lparr>isOffline := False\<rparr> = s" if "\<not> isOffline s"
    using that by simp
  then show ?thesis
    by (auto simp: handleOnline_def afterRender_def syncEffect_def syncOfflineData_start_def)
qed

lemma handleOffline_eq: "handleOffline s = s\<lparr>isOffline := True\<rparr>"
proof -
  have "s\<lparr>isOffline := True\<rparr> = s" if "isOffline s"
    using that by simp
  then show ?thesis
    by (auto simp: handleOffline_def afterRender_def syncEffect_def)
qed

lemma settleNext_single:
  assumes "inFlight s = [batch]"
  shows "settleNext submit s = settle submit batch (s\<lparr>inFlight := []\<rparr>)"
  using assms afterRender_settle [of s "s\<lparr>inFlight := []\<rparr>" submit batch]
  by (simp add: settleNext_def)

lemma settleNext_start:
  assumes "inFlight s = []"
  shows "settleNext submit (syncOfflineData_start s) = syncOfflineData submit s"
proof (cases "length (pendingAttendance s) > 0 \<and> \<not> isOffline s")
  case False
  with assms show ?thesis
    by (auto simp: syncOfflineData_start_def syncOfflineData_def settleNext_def)
next
  case True
  from assms have same: "s\<lparr>inFlight := []\<rparr> = s" by (cases s) simp
  from True assms have "inFlight (syncOfflineData_start s) = [pendingAttendance s]"
    by (simp add: syncOfflineData_start_def)
  from settleNext_single [OF this, of submit] True same show ?thesis
    by (simp add: syncOfflineData_start_def syncOfflineData_def)
qed

subsection \<open>A drain that fails\<close>

text \<open>
  Claim C2. When some submission of the drained batch is rejected, be it one of them or
  all, the pending queue after the drain is the queue before it: every record is still
  there, in the same order, those whose own submission succeeded as well, none lost and
  none twice. This holds for the body of the drain, for \<open>syncOfflineData\<close> run without
  interruption, and for the drain that coming back online starts and that settles next;
  the start of a drain does not touch the queue, and whatever the batch and whatever
  the state in which it settles, a rejected submission leaves the queue as it is.
\<close>

theorem failed_drain_keeps_queue:
  assumes "\<exists>r \<in> set (submissions submit (pendingAttendance s) (remote s)). isl r"
  shows "pendingAttendance (settle submit (pendingAttendance s) s) = pendingAttendance s
       \<and> pendingAttendance (syncOfflineData submit s) = pendingAttendance s
       \<and> pendingAttendance (handleOnline s) = pendingAttendance s
       \<and> (inFlight s = [] \<longrightarrow>
            pendingAttendance (settleNext submit (handleOnline s)) = pendingAttendance s)
       \<and> (\<forall>batch t. (\<exists>r \<in> set (submissions submit batch (remote t)). isl r) \<longrightarrow>
            pendingAttendance (settle submit batch t) = pendingAttendance t)"
proof -
  have a: "pendingAttendance (settle submit (pendingAttendance s) s) = pendingAttendance s"
    using settle_keeps_on_rejection [OF assms] .
  have b: "pendingAttendance (syncOfflineData submit s) = pendingAttendance s"
    using a by (simp add: syncOfflineData_def)
  have c: "pendingAttendance (handleOnline s) = pendingAttendance s"
    by (simp add: handleOnline_eq)
  have d: "pendingAttendance (settleNext submit (handleOnline s)) = pendingAttendance s"
    if idle: "inFlight s = []"
  proof (cases "isOffline s")
    case False
    with idle show ?thesis by (simp add: handleOnline_eq settleNext_def)
  next
    case True
    from assms have ne: "pendingAttendance s \<noteq> []" by auto
    let ?t = "s\<lparr>isOffline := False, inFlight := inFlight s @ [pendingAttendance s]\<rparr>"
    from True ne have h: "handleOnline s = ?t" by (simp add: handleOnline_eq)
    from idle have f: "inFlight ?t = [pendingAttendance s]" by simp
    have r: "\<exists>r \<in> set (submissions submit (pendingAttendance s)
               (remote (?t\<lparr>inFlight := []\<rparr>))). isl r"
      using assms by simp
    from settle_keeps_on_rejection [OF r] show ?thesis
      unfolding h settleNext_single [OF f] by simp
  qed
  from a b c d settle_keeps_on_rejection [of submit] show ?thesis by blast
qed

text \<open>
  A batch of three records of which the second is rejected and the other two are
  accepted: the queue still holds the three.
\<close>

theorem failed_drain_keeps_queue_witness:
  "map isl (submissions (unreliable (reachesAllBut ''student2'')) exampleQueue
       (exampleApi exampleClock)) = [False, True, False]
   \<and> inFlight (handleOnline
        ((initialSystem True (exampleApi exampleClock))\<lparr>pendingAttendance := exampleQueue\<rparr>))
       = [exampleQueue]
   \<and> pendingAttendance (settleNext (unreliable (reachesAllBut ''student2'')) (handleOnline
        ((initialSystem True (exampleApi exampleClock))\<lparr>pendingAttendance := exampleQueue\<rparr>)))
       = exampleQueue
   \<and> length exampleQueue = 3"
proof -
  let ?s = "(initialSystem True (exampleApi exampleClock))\<lparr>pendingAttendance := exampleQueue\<rparr>"
  have q: "pendingAttendance ?s = exampleQueue" by simp
  have r: "remote ?s = exampleApi exampleClock" by (simp add: initialSystem_def)
  have i: "inFlight ?s = []" by (simp add: initialSystem_def)
  have m: "map isl (submissions (unreliable (reachesAllBut ''student2'')) exampleQueue
       (exampleApi exampleClock)) = [False, True, False]"
    by (simp add: unreliable_def reachesAllBut_def exampleQueue_def pendingOf_def
          markAttendance_def Let_def)
  have h: "\<exists>r \<in> set (submissions (unreliable (reachesAllBut ''student2''))
              (pendingAttendance ?s) (remote ?s)). isl r"
  proof -
    have "\<exists>x \<in> set (map isl (submissions (unreliable (reachesAllBut ''student2'')) exampleQueue
       (exampleApi exampleClock))). x"
      unfolding m by simp
    then show ?thesis unfolding q r by auto
  qed
  have f: "inFlight (handleOnline ?s) = [exampleQueue]"
    by (simp add: handleOnline_eq initialSystem_def exampleQueue_def)
  from failed_drain_keeps_queue [OF h] i
  have "pendingAttendance (settleNext (unreliable (reachesAllBut ''student2''))
          (handleOnline ?s)) = pendingAttendance ?s"
    by blast
  with m f show ?thesis by (simp add: exampleQueue_def)
qed

subsection \<open>Captures\<close>

lemma attendanceData_location:
  assumes "attendanceData user t None code = Inr d"
  shows "location d = None"
    and "attendanceData user t (Some p) code = Inr (d\<lparr>location := Some p\<rparr>)"
  using assms by (auto simp: attendanceData_eq split: if_splits)


lemma onScanSuccess_denied:
  "onScanSuccess submit user t0 (Inl (Error m)) code s =
     s\<lparr>message := ''QR code scanned. Getting location...'', messageType := info,
       locationError := Some m, pendingScanData := Some code\<rparr>"
  by (simp add: onScanSuccess_def Let_def truthy_def)

lemma processAttendance_ui_independent:
  "pendingAttendance (snd (processAttendance submit user r t loc code
       (s\<lparr>message := a, messageType := b, locationError := c, pendingScanData := d\<rparr>)))
     = pendingAttendance (snd (processAttendance submit user r t loc code s))"
  "remote (snd (processAttendance submit user r t loc code
       (s\<lparr>message := a, messageType := b, locationError := c, pendingScanData := d\<rparr>)))
     = remote (snd (processAttendance submit user r t loc code s))"
  "inFlight (snd (processAttendance submit user r t loc code
       (s\<lparr>message := a, messageType := b, locationError := c, pendingScanData := d\<rparr>)))
     = inFlight (snd (processAttendance submit user r t loc code s))"
  by (auto simp: processAttendance_def setPendingAttendance_def split: sum.splits prod.splits)

lemma currentRender_ui [simp]:
  "currentRender (s\<lparr>message := a, messageType := b, locationError := c, pendingScanData := d\<rparr>)
     = currentRender s"
  "currentRender (s\<lparr>locationError := c\<rparr>) = currentRender s"
  by (simp_all add: currentRender_def)

lemma handleMarkWithoutLocation_queue:
  assumes "pendingScanData s = Some code" and "code \<noteq> []"
  shows "pendingAttendance (handleMarkWithoutLocation submit user t s)
          = pendingAttendance (snd (processAttendance submit user (currentRender s) t None code
              (s\<lparr>locationError := None\<rparr>)))"
    and "remote (handleMarkWithoutLocation submit user t s)
          = remote (snd (processAttendance submit user (currentRender s) t None code
              (s\<lparr>locationError := None\<rparr>)))"
    and "inFlight (handleMarkWithoutLocation submit user t s)
          = inFlight (snd (processAttendance submit user (currentRender s) t None code
              (s\<lparr>locationError := None\<rparr>)))"
    and "pendingScanData (handleMarkWithoutLocation submit user t s) = None"
  using assms
  by (auto simp: handleMarkWithoutLocation_def split: prod.splits sum.splits js_error.splits)

lemma mark_after_denial:
  assumes "code \<noteq> []"
  shows "pendingAttendance (handleMarkWithoutLocation submit user t
            (onScanSuccess submit user t0 (Inl (Error m)) code s))
           = pendingAttendance (snd (processAttendance submit user (currentRender s) t None code s))"
    and "remote (handleMarkWithoutLocation submit user t
            (onScanSuccess submit user t0 (Inl (Error m)) code s))
           = remote (snd (processAttendance submit user (currentRender s) t None code s))"
    and "inFlight (handleMarkWithoutLocation submit user t
            (onScanSuccess submit user t0 (Inl (Error m)) code s))
           = inFlight (snd (processAttendance submit user (currentRender s) t None code s))"
proof -
  let ?s1 = "s\<lparr>message := ''QR code scanned. Getting location...'', messageType := info,
             locationError := Some m, pendingScanData := Some code\<rparr>"
  have p: "pendingScanData ?s1 = Some code" by simp
  have same: "?s1\<lparr>locationError := None\<rparr>
          = s\<lparr>message := ''QR code scanned. Getting location...'', messageType := info,
             locationError := None, pendingScanData := Some code\<rparr>"
    by simp
  note h = handleMarkWithoutLocation_queue [OF p assms, of submit user t]
  show "pendingAttendance (handleMarkWithoutLocation submit user t
            (onScanSuccess submit user t0 (Inl (Error m)) code s))
           = pendingAttendance (snd (processAttendance submit user (currentRender s) t None code s))"
    unfolding onScanSuccess_denied h(1) same
    by (simp add: processAttendance_ui_independent)
  show "remote (handleMarkWithoutLocation submit user t
            (onScanSuccess submit user t0 (Inl (Error m)) code s))
           = remote (snd (processAttendance submit user (currentRender s) t None code s))"
    unfolding onScanSuccess_denied h(2) same
    by (simp add: processAttendance_ui_independent)
  show "inFlight (handleMarkWithoutLocation submit user t
            (onScanSuccess submit user t0 (Inl (Error m)) code s))
           = inFlight (snd (processAttendance submit user (currentRender s) t None code s))"
    unfolding onScanSuccess_denied h(3) same
    by (simp add: processAttendance_ui_independent)
qed

subsection \<open>When a drain starts\<close>




section \<open>Marking attendance without location\<close>

lemma location_complete_or_absent:
  "location r = None \<or> (\<exists>la lo. location r = Some \<lparr>latitude = la, longitude = lo\<rparr>)"
proof (cases "location r")
  case None
  then show ?thesis by simp
next
  case (Some q)
  then show ?thesis by (cases q) auto
qed

text \<open>
  Claim C6. A code is scanned, but the location service rejects (permission denied): the
  scan is kept as pending and nothing is recorded. Marking without location then
  changes the queue and the remote store exactly as \<open>processAttendance\<close> of the current
  render with location \<open>null\<close> does, the function a located record goes through: the record
  built has no location and is otherwise the record built with a location; offline it
  is appended to the queue, online it is submitted, as a located one is by the same
  function. The location of a record is either absent or a pair of a latitude and a
  longitude.
\<close>

theorem mark_without_location:
  assumes "code \<noteq> []"
  shows "pendingScanData (onScanSuccess submit user t0 (Inl (Error m)) code s) = Some code
       \<and> locationError (onScanSuccess submit user t0 (Inl (Error m)) code s) = Some m
       \<and> pendingAttendance (onScanSuccess submit user t0 (Inl (Error m)) code s) = pendingAttendance s
       \<and> remote (onScanSuccess submit user t0 (Inl (Error m)) code s) = remote s
       \<and> pendingAttendance (handleMarkWithoutLocation submit user t
            (onScanSuccess submit user t0 (Inl (Error m)) code s))
           = pendingAttendance (snd (processAttendance submit user (currentRender s) t None code s))
       \<and> remote (handleMarkWithoutLocation submit user t
            (onScanSuccess submit user t0 (Inl (Error m)) code s))
           = remote (snd (processAttendance submit user (currentRender s) t None code s))
       \<and> (\<forall>d. attendanceData user t None code = Inr d \<longrightarrow>
             location d = None
           \<and> attendanceData user t (Some p) code = Inr (d\<lparr>location := Some p\<rparr>)
           \<and> (isOffline s \<and> \<not> storageFails s \<longrightarrow>
                pendingAttendance (handleMarkWithoutLocation submit user t
                  (onScanSuccess submit user t0 (Inl (Error m)) code s))
                 = pendingAttendance s @ [d]
              \<and> pendingAttendance (snd (processAttendance submit user (currentRender s) t
                  (Some p) code s))
                 = pendingAttendance s @ [d\<lparr>location := Some p\<rparr>])
           \<and> (\<not> isOffline s \<longrightarrow>
                remote (handleMarkWithoutLocation submit user t
                  (onScanSuccess submit user t0 (Inl (Error m)) code s))
                 = snd (submit d (remote s))
              \<and> remote (snd (processAttendance submit user (currentRender s) t (Some p) code s))
                 = snd (submit (d\<lparr>location := Some p\<rparr>) (remote s))))
       \<and> (\<forall>r :: AttendanceData. location r = None
             \<or> (\<exists>la lo. location r = Some \<lparr>latitude = la, longitude = lo\<rparr>))
       \<and> (\<forall>r :: AttendanceRecord. location r = None
             \<or> (\<exists>la lo. location r = Some \<lparr>latitude = la, longitude = lo\<rparr>))"
proof -
  let ?s1 = "onScanSuccess submit user t0 (Inl (Error m)) code s"
  have a: "pendingScanData ?s1 = Some code" "locationError ?s1 = Some m"
    "pendingAttendance ?s1 = pendingAttendance s" "remote ?s1 = remote s"
    unfolding onScanSuccess_denied by simp_all
  note b = mark_after_denial(1,2) [OF assms, of submit user t t0 m s]
  have c: "location d = None
           \<and> attendanceData user t (Some p) code = Inr (d\<lparr>location := Some p\<rparr>)
           \<and> (isOffline s \<and> \<not> storageFails s \<longrightarrow>
                pendingAttendance (snd (processAttendance submit user (currentRender s) t None
                  code s))
                 = pendingAttendance s @ [d]
              \<and> pendingAttendance (snd (processAttendance submit user (currentRender s) t
                  (Some p) code s))
                 = pendingAttendance s @ [d\<lparr>location := Some p\<rparr>])
           \<and> (\<not> isOffline s \<longrightarrow>
                remote (snd (processAttendance submit user (currentRender s) t None code s))
                 = snd (submit d (remote s))
              \<and> remote (snd (processAttendance submit user (currentRender s) t (Some p) code s))
                 = snd (submit (d\<lparr>location := Some p\<rparr>) (remote s)))"
    if d: "attendanceData user t None code = Inr d" for d
    using attendanceData_location(1) [OF d] attendanceData_location(2) [OF d, of p] d
    by (auto simp: processAttendance_def setPendingAttendance_def currentRender_def
          split: prod.splits sum.splits)
  from a b c show ?thesis by (simp add: location_complete_or_absent)
qed


text \<open>
  Alice scans the code of \<open>teacher1\<close>, is denied the location and marks without it: offline
  the record is queued, online it is stored, with no location.
\<close>

theorem mark_without_location_witness:
  "pendingScanData (onScanSuccess markAttendance alice ''2023-11-14T22:13:19.000Z''
       (Inl (Error ''User denied Geolocation'')) ''teacher1-SESSION-1700000000000''
       (initialSystem True (exampleApi exampleClock)))
     = Some ''teacher1-SESSION-1700000000000''
   \<and> pendingAttendance (handleMarkWithoutLocation markAttendance alice ''2023-11-14T22:13:20.000Z''
       (onScanSuccess markAttendance alice ''2023-11-14T22:13:19.000Z''
         (Inl (Error ''User denied Geolocation'')) ''teacher1-SESSION-1700000000000''
         (initialSystem True (exampleApi exampleClock))))
     = [pendingOf ''student1'' ''Alice Johnson'' ''S001'']
   \<and> location (pendingOf ''student1'' ''Alice Johnson'' ''S001'') = None
   \<and> map AttendanceData.truncate (attendanceRecords (remote
       (handleMarkWithoutLocation markAttendance alice ''2023-11-14T22:13:20.000Z''
         (onScanSuccess markAttendance alice ''2023-11-14T22:13:19.000Z''
           (Inl (Error ''User denied Geolocation'')) ''teacher1-SESSION-1700000000000''
           (initialSystem False (exampleApi exampleClock))))))
     = [pendingOf ''student1'' ''Alice Johnson'' ''S001'']"
proof -
  let ?off = "initialSystem True (exampleApi exampleClock) :: mockApi system"
  let ?on = "initialSystem False (exampleApi exampleClock) :: mockApi system"
  let ?code = "''teacher1-SESSION-1700000000000''"
  have c: "?code \<noteq> []" by simp
  have d: "attendanceData alice ''2023-11-14T22:13:20.000Z'' None ?code
             = Inr (pendingOf ''student1'' ''Alice Johnson'' ''S001'')"
    by (simp add: attendanceData_def Let_def alice_def pendingOf_def)
  have s: "isOffline ?off" "\<not> storageFails ?off" "pendingAttendance ?off = []"
    "\<not> isOffline ?on" "attendanceRecords (remote ?on) = []"
    by (simp_all add: initialSystem_def exampleApi_def)
  note off = mark_without_location [OF c, where submit = markAttendance and user = alice
      and ?t0.0 = "''2023-11-14T22:13:19.000Z''" and m = "''User denied Geolocation''"
      and t = "''2023-11-14T22:13:20.000Z''" and p = examplePosition and s = ?off]
  note on = mark_without_location [OF c, where submit = markAttendance and user = alice
      and ?t0.0 = "''2023-11-14T22:13:19.000Z''" and m = "''User denied Geolocation''"
      and t = "''2023-11-14T22:13:20.000Z''" and p = examplePosition and s = ?on]
  from off have a: "pendingScanData (onScanSuccess markAttendance alice ''2023-11-14T22:13:19.000Z''
       (Inl (Error ''User denied Geolocation'')) ?code ?off) = Some ?code"
    by blast
  from off d s(1,2) have "pendingAttendance (handleMarkWithoutLocation markAttendance alice
       ''2023-11-14T22:13:20.000Z''
       (onScanSuccess markAttendance alice ''2023-11-14T22:13:19.000Z''
         (Inl (Error ''User denied Geolocation'')) ?code ?off))
     = pendingAttendance ?off @ [pendingOf ''student1'' ''Alice Johnson'' ''S001'']"
    by blast
  then have b: "pendingAttendance (handleMarkWithoutLocation markAttendance alice
       ''2023-11-14T22:13:20.000Z''
       (onScanSuccess markAttendance alice ''2023-11-14T22:13:19.000Z''
         (Inl (Error ''User denied Geolocation'')) ?code ?off))
     = [pendingOf ''student1'' ''Alice Johnson'' ''S001'']"
    using s(3) by simp
  from on d s(4) have "remote (handleMarkWithoutLocation markAttendance alice
       ''2023-11-14T22:13:20.000Z''
       (onScanSuccess markAttendance alice ''2023-11-14T22:13:19.000Z''
         (Inl (Error ''User denied Geolocation'')) ?code ?on))
     = snd (markAttendance (pendingOf ''student1'' ''Alice Johnson'' ''S001'') (remote ?on))"
    by blast
  then have e: "map AttendanceData.truncate (attendanceRecords (remote
       (handleMarkWithoutLocation markAttendance alice ''2023-11-14T22:13:20.000Z''
         (onScanSuccess markAttendance alice ''2023-11-14T22:13:19.000Z''
           (Inl (Error ''User denied Geolocation'')) ?code ?on))))
     = [pendingOf ''student1'' ''Alice Johnson'' ''S001'']"
    using s(5) by (simp add: markAttendance_snd)
  have l: "location (pendingOf ''student1'' ''Alice Johnson'' ''S001'') = None"
    by (simp add: pendingOf_def)
  from a b l e show ?thesis by simp
qed

section \<open>A failing write of the queue\<close>

text \<open>
  Claim C8, as the code has it. When the write of the queue fails during an offline
  capture, nothing is reported to the caller: \<open>processAttendance\<close>, of whatever render that
  is offline, returns normally and shows its message of success, the persisted queue is
  as it was, so the record is not in it, and nothing is submitted. \<open>setStoredData\<close>, the
  writer of the mock service, likewise leaves the storage as it was and returns.
\<close>

theorem failed_queue_write_is_swallowed:
  assumes "render_isOffline r" and "storageFails s"
    and "attendanceData user now_iso loc code = Inr d"
  shows "fst (processAttendance submit user r now_iso loc code s) = Inr ()
       \<and> messageType (snd (processAttendance submit user r now_iso loc code s)) = success
       \<and> pendingAttendance (snd (processAttendance submit user r now_iso loc code s))
           = pendingAttendance s
       \<and> remote (snd (processAttendance submit user r now_iso loc code s)) = remote s
       \<and> setPendingAttendance (render_pendingAttendance r @ [d]) s = s
       \<and> setStoredData True key v ls = ls"
  using assms
  by (simp add: processAttendance_def setPendingAttendance_def setStoredData_def)

text \<open>Alice captures a code offline while the writes of the queue fail.\<close>

theorem failed_queue_write_is_swallowed_witness:
  "fst (processAttendance markAttendance alice
          (currentRender ((initialSystem True (exampleApi exampleClock))\<lparr>storageFails := True\<rparr>))
          ''2023-11-14T22:13:20.000Z'' None ''teacher1-SESSION-1700000000000''
          ((initialSystem True (exampleApi exampleClock))\<lparr>storageFails := True\<rparr>)) = Inr ()
   \<and> storageFails ((initialSystem True (exampleApi exampleClock))\<lparr>storageFails := True\<rparr>)
   \<and> pendingAttendance (snd (processAttendance markAttendance alice
          (currentRender ((initialSystem True (exampleApi exampleClock))\<lparr>storageFails := True\<rparr>))
          ''2023-11-14T22:13:20.000Z'' None ''teacher1-SESSION-1700000000000''
          ((initialSystem True (exampleApi exampleClock))\<lparr>storageFails := True\<rparr>))) = []"
proof -
  let ?s = "(initialSystem True (exampleApi exampleClock))\<lparr>storageFails := True\<rparr>"
  have h1: "render_isOffline (currentRender ?s)" and h2: "storageFails ?s"
    and q: "pendingAttendance ?s = []"
    by (simp_all add: initialSystem_def currentRender_def)
  have h3: "attendanceData alice ''2023-11-14T22:13:20.000Z'' None
              ''teacher1-SESSION-1700000000000''
             = Inr (pendingOf ''student1'' ''Alice Johnson'' ''S001'')"
    by (simp add: attendanceData_def Let_def alice_def pendingOf_def)
  from failed_queue_write_is_swallowed [OF h1 h2 h3, where submit = markAttendance
      and key = "''mock_attendance''" and v = "[] :: AttendanceRecord list"
      and ls = "localStorage (exampleApi exampleClock)"] h2 q
  show ?thesis by simp
qed

text \<open>
  The enqueue does not fail loudly: with the writes failing, the capture returns without
  an error, the message says the attendance was saved locally, and the queue is empty.
\<close>

theorem failed_queue_write_not_reported:
  "storageFails ((initialSystem True (exampleApi exampleClock))\<lparr>storageFails := True\<rparr>)
   \<and> processAttendance markAttendance alice
        (currentRender ((initialSystem True (exampleApi exampleClock))\<lparr>storageFails := True\<rparr>))
        ''2023-11-14T22:13:20.000Z'' None ''teacher1-SESSION-1700000000000''
        ((initialSystem True (exampleApi exampleClock))\<lparr>storageFails := True\<rparr>)
     = (Inr (),
        (initialSystem True (exampleApi exampleClock))
          \<lparr>storageFails := True,
           message := ''Offline. Attendance saved locally (no location).'',
           messageType := success\<rparr>)
   \<and> pendingAttendance
        ((initialSystem True (exampleApi exampleClock))
          \<lparr>storageFails := True,
           message := ''Offline. Attendance saved locally (no location).'',
           messageType := success\<rparr>) = []"
  by (simp add: processAttendance_def attendanceData_def Let_def setPendingAttendance_def
        initialSystem_def currentRender_def alice_def)

section \<open>Submitting a record again\<close>

lemma digit_char_inj: "a < 10 \<Longrightarrow> b < 10 \<Longrightarrow> digit_char a = digit_char b \<Longrightarrow> a = b"
  unfolding digit_char_def by (subst (asm) nth_eq_iff_index_eq) simp_all

lemma string_of_nat_nonempty: "string_of_nat n \<noteq> []"
  by (subst string_of_nat.simps) simp

lemma string_of_nat_inj: "string_of_nat n = string_of_nat m \<Longrightarrow> n = m"
proof (induction n arbitrary: m rule: string_of_nat.induct)
  case (1 n)
  show ?case
  proof (cases "n < 10")
    case True
    show ?thesis
    proof (cases "m < 10")
      case True
      with \<open>n < 10\<close> "1.prems" show ?thesis
        by (simp add: string_of_nat.simps [of n] string_of_nat.simps [of m] digit_char_inj)
    next
      case False
      with \<open>n < 10\<close> "1.prems" string_of_nat_nonempty [of "m div 10"] show ?thesis
        by (auto simp: string_of_nat.simps [of n] string_of_nat.simps [of m])
    qed
  next
    case False
    show ?thesis
    proof (cases "m < 10")
      case True
      with \<open>\<not> n < 10\<close> "1.prems" string_of_nat_nonempty [of "n div 10"] show ?thesis
        by (auto simp: string_of_nat.simps [of n] string_of_nat.simps [of m])
    next
      case mf: False
      from False mf "1.prems" have e: "string_of_nat (n div 10) = string_of_nat (m div 10)"
        and d: "digit_char (n mod 10) = digit_char (m mod 10)"
        by (simp_all add: string_of_nat.simps [of n] string_of_nat.simps [of m])
      from "1.IH" [OF False e] have "n div 10 = m div 10" .
      moreover from d have "n mod 10 = m mod 10" by (intro digit_char_inj) simp_all
      ultimately show ?thesis by (metis div_mult_mod_eq)
    qed
  qed
qed

lemma extend_eq_iff:
  "AttendanceData.extend d (AttendanceRecord.fields i)
     = AttendanceData.extend d' (AttendanceRecord.fields j) \<longleftrightarrow> d = d' \<and> i = j"
  by (cases d; cases d') (auto simp: AttendanceData.defs AttendanceRecord.defs)

lemma unreliable_fulfils:
  "reaches d \<Longrightarrow> unreliable reaches d api = markAttendance d api"
  by (simp add: unreliable_def)

lemma Promise_all_unreliable:
  "\<exists>recs. attendanceRecords (snd (Promise_all (unreliable reaches) q api))
             = attendanceRecords api @ recs
      \<and> map AttendanceData.truncate recs = filter reaches q"
proof (induction q arbitrary: api)
  case Nil
  show ?case by simp
next
  case (Cons d q)
  show ?case
  proof (cases "reaches d")
    case True
    let ?api1 = "snd (markAttendance d api)"
    from Cons.IH [of ?api1] obtain recs where
      ih: "attendanceRecords (snd (Promise_all (unreliable reaches) q ?api1))
             = attendanceRecords ?api1 @ recs"
        "map AttendanceData.truncate recs = filter reaches q"
      by blast
    let ?x = "AttendanceData.extend d
      (AttendanceRecord.fields (''att'' @ string_of_nat (Date_now api (clockReads api))))"
    have "attendanceRecords (snd (Promise_all (unreliable reaches) (d # q) api))
            = attendanceRecords api @ (?x # recs)"
      using ih(1) True
      by (simp add: Promise_all_snd unreliable_fulfils markAttendance_snd del: Promise_all.simps)
    moreover have "map AttendanceData.truncate (?x # recs) = filter reaches (d # q)"
      using ih(2) True by simp
    ultimately show ?thesis by blast
  next
    case False
    then have "snd (unreliable reaches d api) = api" by (simp add: unreliable_def)
    with Cons.IH [of api] False show ?thesis
      by (simp add: Promise_all_snd del: Promise_all.simps)
  qed
qed

lemma submissions_unreliable_rejects:
  "(\<exists>r \<in> set (submissions (unreliable reaches) q api). isl r) \<longleftrightarrow> (\<exists>d \<in> set q. \<not> reaches d)"
proof (induction q arbitrary: api)
  case Nil
  show ?case by simp
next
  case (Cons d q)
  show ?case
  proof (cases "reaches d")
    case True
    then have "unreliable reaches d api = (fst (markAttendance d api), snd (markAttendance d api))"
      by (simp add: unreliable_def)
    with Cons.IH [of "snd (markAttendance d api)"] True show ?thesis
      by (simp add: markAttendance_fst)
  next
    case False
    then show ?thesis by (simp add: unreliable_def)
  qed
qed



text \<open>
  Claim C7, as the code has it. The store is not idempotent: two calls of
  \<open>markAttendance\<close> with the same record push two records on the array, each the given
  record with the identity \<open>att<Date.now()>\<close>. The identity is the reading of the clock, not
  a fresh one: the two stored records are equal exactly when the two calls read the
  same time, and differ in their identity otherwise. A batch of which some submission
  was lost stays queued whole, and the retry stores every record of it again: after the
  retry the store holds, beyond what it held before, the records accepted the first
  time and then the whole batch.
\<close>

theorem resubmission_is_not_idempotent:
  "attendanceRecords (snd (markAttendance d (snd (markAttendance d api))))
      = attendanceRecords api @
         [AttendanceData.extend d (AttendanceRecord.fields
            (''att'' @ string_of_nat (Date_now api (clockReads api)))),
          AttendanceData.extend d (AttendanceRecord.fields
            (''att'' @ string_of_nat (Date_now api (Suc (clockReads api)))))]
   \<and> AttendanceData.truncate (AttendanceData.extend d (AttendanceRecord.fields
            (''att'' @ string_of_nat (Date_now api (clockReads api))))) = d
   \<and> AttendanceData.truncate (AttendanceData.extend d (AttendanceRecord.fields
            (''att'' @ string_of_nat (Date_now api (Suc (clockReads api)))))) = d
   \<and> (AttendanceData.extend d (AttendanceRecord.fields
            (''att'' @ string_of_nat (Date_now api (clockReads api))))
        = AttendanceData.extend d (AttendanceRecord.fields
            (''att'' @ string_of_nat (Date_now api (Suc (clockReads api))))))
       = (Date_now api (clockReads api) = Date_now api (Suc (clockReads api)))
   \<and> (\<not> isOffline s \<and> \<not> storageFails s \<and> (\<exists>d \<in> set (pendingAttendance s). \<not> reaches d) \<longrightarrow>
        pendingAttendance (syncOfflineData (unreliable reaches) s) = pendingAttendance s
      \<and> pendingAttendance (syncOfflineData markAttendance
           (syncOfflineData (unreliable reaches) s)) = []
      \<and> map AttendanceData.truncate (attendanceRecords (remote
           (syncOfflineData markAttendance (syncOfflineData (unreliable reaches) s))))
          = map AttendanceData.truncate (attendanceRecords (remote s))
            @ filter reaches (pendingAttendance s) @ pendingAttendance s)"
proof -
  have twice: "attendanceRecords (snd (markAttendance d (snd (markAttendance d api))))
      = attendanceRecords api @
         [AttendanceData.extend d (AttendanceRecord.fields
            (''att'' @ string_of_nat (Date_now api (clockReads api)))),
          AttendanceData.extend d (AttendanceRecord.fields
            (''att'' @ string_of_nat (Date_now api (Suc (clockReads api)))))]"
    by (simp add: markAttendance_snd)
  have same: "(AttendanceData.extend d (AttendanceRecord.fields
            (''att'' @ string_of_nat (Date_now api (clockReads api))))
        = AttendanceData.extend d (AttendanceRecord.fields
            (''att'' @ string_of_nat (Date_now api (Suc (clockReads api))))))
       = (Date_now api (clockReads api) = Date_now api (Suc (clockReads api)))"
    using string_of_nat_inj by (auto simp: extend_eq_iff)
  have retry: "pendingAttendance (syncOfflineData (unreliable reaches) s) = pendingAttendance s
      \<and> pendingAttendance (syncOfflineData markAttendance
           (syncOfflineData (unreliable reaches) s)) = []
      \<and> map AttendanceData.truncate (attendanceRecords (remote
           (syncOfflineData markAttendance (syncOfflineData (unreliable reaches) s))))
          = map AttendanceData.truncate (attendanceRecords (remote s))
            @ filter reaches (pendingAttendance s) @ pendingAttendance s"
    if on: "\<not> isOffline s" and st: "\<not> storageFails s"
      and lost: "\<exists>d \<in> set (pendingAttendance s). \<not> reaches d"
  proof -
    let ?q = "pendingAttendance s"
    let ?s1 = "syncOfflineData (unreliable reaches) s"
    from lost have ne: "?q \<noteq> []" by auto
    with on have s1: "?s1 = settle (unreliable reaches) ?q s"
      by (simp add: syncOfflineData_def)
    from lost submissions_unreliable_rejects [of reaches ?q "remote s"]
      Promise_all_rejects_iff [of "unreliable reaches" ?q "remote s"]
    obtain e where e: "fst (Promise_all (unreliable reaches) ?q (remote s)) = Inl e"
      by (cases "fst (Promise_all (unreliable reaches) ?q (remote s))") auto
    from settle_rejected [OF e] settle_flags [of "unreliable reaches" ?q s]
    have q1: "pendingAttendance ?s1 = ?q"
      and r1: "remote ?s1 = snd (Promise_all (unreliable reaches) ?q (remote s))"
      and f1: "\<not> isOffline ?s1" "\<not> storageFails ?s1"
      unfolding s1 using on st by simp_all
    from Promise_all_unreliable [of reaches ?q "remote s"] r1 obtain recs1 where
      recs1: "attendanceRecords (remote ?s1) = attendanceRecords (remote s) @ recs1"
        "map AttendanceData.truncate recs1 = filter reaches ?q"
      by auto
    let ?s2 = "syncOfflineData markAttendance ?s1"
    from ne q1 f1 have s2: "?s2 = settle markAttendance ?q ?s1"
      by (simp add: syncOfflineData_def)
    from Promise_all_markAttendance [of ?q "remote ?s1"] obtain recs2 where
      recs2: "fst (Promise_all markAttendance ?q (remote ?s1)) = Inr recs2"
        "attendanceRecords (snd (Promise_all markAttendance ?q (remote ?s1)))
           = attendanceRecords (remote ?s1) @ recs2"
        "map AttendanceData.truncate recs2 = ?q"
      by blast
    from settle_fulfilled [OF recs2(1) f1(2)]
    have q2: "pendingAttendance ?s2 = []"
      and r2: "remote ?s2 = snd (Promise_all markAttendance ?q (remote ?s1))"
      unfolding s2 by simp_all
    from q1 q2 r2 recs1 recs2 show ?thesis by simp
  qed
  from twice same retry show ?thesis by simp
qed

text \<open>
  Three queued records; the submission of the second is lost, the retry succeeds: the
  first and the third are in the store twice.
\<close>

theorem resubmission_is_not_idempotent_witness:
  "map AttendanceData.truncate (attendanceRecords (remote
      (syncOfflineData markAttendance (syncOfflineData (unreliable (reachesAllBut ''student2''))
        ((initialSystem False (exampleApi exampleClock))\<lparr>pendingAttendance := exampleQueue\<rparr>)))))
     = [pendingOf ''student1'' ''Alice Johnson'' ''S001'',
        pendingOf ''student3'' ''Charlie Brown'' ''S003'',
        pendingOf ''student1'' ''Alice Johnson'' ''S001'',
        pendingOf ''student2'' ''Bob Williams'' ''S002'',
        pendingOf ''student3'' ''Charlie Brown'' ''S003'']
   \<and> reachesAllBut ''student2'' (pendingOf ''student2'' ''Bob Williams'' ''S002'') = False"
proof -
  let ?s = "(initialSystem False (exampleApi exampleClock))\<lparr>pendingAttendance := exampleQueue\<rparr>"
  have h: "\<not> isOffline ?s \<and> \<not> storageFails ?s
      \<and> (\<exists>d \<in> set (pendingAttendance ?s). \<not> reachesAllBut ''student2'' d)"
    by (simp add: initialSystem_def exampleQueue_def reachesAllBut_def pendingOf_def)
  have f: "filter (reachesAllBut ''student2'') exampleQueue
            = [pendingOf ''student1'' ''Alice Johnson'' ''S001'',
               pendingOf ''student3'' ''Charlie Brown'' ''S003'']"
    by (simp add: exampleQueue_def reachesAllBut_def pendingOf_def)
  have a: "attendanceRecords (remote ?s) = []" and q: "pendingAttendance ?s = exampleQueue"
    by (simp_all add: initialSystem_def exampleApi_def)
  have n: "reachesAllBut ''student2'' (pendingOf ''student2'' ''Bob Williams'' ''S002'') = False"
    by (simp add: reachesAllBut_def pendingOf_def)
  from resubmission_is_not_idempotent [of _ _ ?s "reachesAllBut ''student2''"] h
  have "map AttendanceData.truncate (attendanceRecords (remote
           (syncOfflineData markAttendance
             (syncOfflineData (unreliable (reachesAllBut ''student2'')) ?s))))
          = map AttendanceData.truncate (attendanceRecords (remote ?s))
            @ filter (reachesAllBut ''student2'') (pendingAttendance ?s) @ pendingAttendance ?s"
    by blast
  then show ?thesis unfolding q a f using n by (simp add: exampleQueue_def)
qed

text \<open>
  Two calls that read the same millisecond store the same record twice, with one and the
  same identity.
\<close>

theorem same_clock_reading_same_record:
  "attendanceRecords (snd (markAttendance (pendingOf ''student1'' ''Alice Johnson'' ''S001'')
      (snd (markAttendance (pendingOf ''student1'' ''Alice Johnson'' ''S001'')
         (exampleApi stoppedClock)))))
     = [AttendanceData.extend (pendingOf ''student1'' ''Alice Johnson'' ''S001'')
          (AttendanceRecord.fields ''att1700000000500''),
        AttendanceData.extend (pendingOf ''student1'' ''Alice Johnson'' ''S001'')
          (AttendanceRecord.fields ''att1700000000500'')]"
  by (simp add: markAttendance_def Let_def exampleApi_def stoppedClock_def
        string_of_nat.simps digit_char_def)

section \<open>Records that are lost or submitted twice\<close>

text \<open>
  Claim C9, at an input where the code breaks it. A drain of one queued record is in
  flight when the application goes offline and Alice, denied the location, marks a scan
  without it. The capture reports that the attendance is saved locally, and its record
  is in the queue behind the one being drained. When the drain settles, its submission
  has succeeded and the whole queue is set to empty: no drain is in flight any more,
  and the record of the capture is neither in the queue nor in the store.
\<close>

theorem record_enqueued_during_drain_lost:
  "inFlight drainStarted = [[pendingOf ''student1'' ''Alice Johnson'' ''S001'']]
   \<and> isOffline capturedDuringDrain
   \<and> pendingAttendance capturedDuringDrain
       = [pendingOf ''student1'' ''Alice Johnson'' ''S001'', unlocatedRecord]
   \<and> message capturedDuringDrain = ''Offline. Attendance saved locally (no location).''
   \<and> inFlight capturedDuringDrain = [[pendingOf ''student1'' ''Alice Johnson'' ''S001'']]
   \<and> pendingAttendance (settleNext markAttendance capturedDuringDrain) = []
   \<and> inFlight (settleNext markAttendance capturedDuringDrain) = []
   \<and> map AttendanceData.truncate
        (attendanceRecords (remote (settleNext markAttendance capturedDuringDrain)))
       = [pendingOf ''student1'' ''Alice Johnson'' ''S001'']
   \<and> unlocatedRecord \<notin> set (pendingAttendance (settleNext markAttendance capturedDuringDrain))
   \<and> unlocatedRecord \<notin> set (map AttendanceData.truncate
        (attendanceRecords (remote (settleNext markAttendance capturedDuringDrain))))"
proof -
  have d: "drainStarted =
     (initialSystem False (exampleApi exampleClock))
       \<lparr>pendingAttendance := [pendingOf ''student1'' ''Alice Johnson'' ''S001''],
        firstRender := \<lparr>render_isOffline = False,
          render_pendingAttendance = [pendingOf ''student1'' ''Alice Johnson'' ''S001'']\<rparr>,
        inFlight := [[pendingOf ''student1'' ''Alice Johnson'' ''S001'']]\<rparr>"
    by (simp add: drainStarted_def syncEffect_def syncOfflineData_start_def mountScanner_def
          currentRender_def initialSystem_def)
  have c: "capturedDuringDrain =
     (initialSystem False (exampleApi exampleClock))
       \<lparr>isOffline := True,
        pendingAttendance := [pendingOf ''student1'' ''Alice Johnson'' ''S001'', unlocatedRecord],
        firstRender := \<lparr>render_isOffline = False,
          render_pendingAttendance = [pendingOf ''student1'' ''Alice Johnson'' ''S001'']\<rparr>,
        inFlight := [[pendingOf ''student1'' ''Alice Johnson'' ''S001'']],
        message := ''Offline. Attendance saved locally (no location).'',
        messageType := success, locationError := None, pendingScanData := None,
        scanCompleted := True\<rparr>"
    unfolding capturedDuringDrain_def d
    by (simp add: handleOffline_eq onScanSuccess_denied handleMarkWithoutLocation_def
          processAttendance_def attendanceData_def Let_def currentRender_def
          setPendingAttendance_def initialSystem_def alice_def unlocatedRecord_def)
  have s: "pendingAttendance (settleNext markAttendance capturedDuringDrain) = []
     \<and> inFlight (settleNext markAttendance capturedDuringDrain) = []
     \<and> map AttendanceData.truncate
        (attendanceRecords (remote (settleNext markAttendance capturedDuringDrain)))
       = [pendingOf ''student1'' ''Alice Johnson'' ''S001'']"
    unfolding c
    by (simp add: settleNext_def settle_def afterRender_def syncEffect_def
          setPendingAttendance_def markAttendance_def Let_def initialSystem_def exampleApi_def)
  have n: "unlocatedRecord \<noteq> pendingOf ''student1'' ''Alice Johnson'' ''S001''"
    by (simp add: unlocatedRecord_def pendingOf_def)
  from s n show ?thesis unfolding d c by simp
qed

text \<open>
  Claim C1, at inputs where the code breaks it. Offline, with nothing queued, Alice
  makes two located scans. Each reports that the attendance is saved locally, but the
  scanner calls the function of the first render, which sets the queue to the first
  render's queue with the new record appended: after the second scan the queue holds
  the second record alone. Back online, the drain submits that one record, and the
  first is never submitted. Second input: the application starts online with three
  queued records, and goes offline and online again before the submissions of the first
  drain settle; two drains of the same queue are then in flight, and when both have
  settled the store holds every record twice.
\<close>

theorem located_offline_scans_overwrite:
  "isOffline afterFirstScan
   \<and> pendingAttendance afterFirstScan = [firstRecord]
   \<and> message afterFirstScan = ''You are offline. Attendance saved locally.''
   \<and> isOffline afterSecondScan
   \<and> pendingAttendance afterSecondScan = [secondRecord]
   \<and> message afterSecondScan = ''You are offline. Attendance saved locally.''
   \<and> inFlight (handleOnline afterSecondScan) = [[secondRecord]]
   \<and> pendingAttendance (settleNext markAttendance (handleOnline afterSecondScan)) = []
   \<and> map AttendanceData.truncate (attendanceRecords (remote
        (settleNext markAttendance (handleOnline afterSecondScan))))
       = [secondRecord]
   \<and> firstRecord \<noteq> secondRecord
   \<and> inFlight (handleOnline (handleOffline (syncEffect startedOnline)))
       = [exampleQueue, exampleQueue]
   \<and> map AttendanceData.truncate (attendanceRecords (remote
        (settleNext markAttendance (settleNext markAttendance
           (handleOnline (handleOffline (syncEffect startedOnline)))))))
       = exampleQueue @ exampleQueue
   \<and> pendingAttendance (settleNext markAttendance (settleNext markAttendance
           (handleOnline (handleOffline (syncEffect startedOnline))))) = []"
proof -
  have a: "afterFirstScan =
     (initialSystem True (exampleApi exampleClock))
       \<lparr>pendingAttendance := [firstRecord],
        message := ''You are offline. Attendance saved locally.'', messageType := success,
        scanCompleted := True\<rparr>"
    by (simp add: afterFirstScan_def onScanSuccess_def truthy_def Let_def processAttendance_def
          attendanceData_def setPendingAttendance_def initialSystem_def alice_def
          firstRecord_def)
  have b: "afterSecondScan =
     (initialSystem True (exampleApi exampleClock))
       \<lparr>pendingAttendance := [secondRecord],
        message := ''You are offline. Attendance saved locally.'', messageType := success,
        scanCompleted := True\<rparr>"
    unfolding afterSecondScan_def a
    by (simp add: handleResumeScanning_def onScanSuccess_def truthy_def Let_def
          processAttendance_def attendanceData_def setPendingAttendance_def initialSystem_def
          alice_def secondRecord_def)
  have n: "firstRecord \<noteq> secondRecord"
    by (simp add: firstRecord_def secondRecord_def)
  have o: "handleOnline afterSecondScan =
     (initialSystem True (exampleApi exampleClock))
       \<lparr>isOffline := False, pendingAttendance := [secondRecord],
        inFlight := [[secondRecord]],
        message := ''You are offline. Attendance saved locally.'', messageType := success,
        scanCompleted := True\<rparr>"
    unfolding b by (simp add: handleOnline_eq initialSystem_def)
  have s: "pendingAttendance (settleNext markAttendance (handleOnline afterSecondScan)) = []
     \<and> map AttendanceData.truncate (attendanceRecords (remote
        (settleNext markAttendance (handleOnline afterSecondScan)))) = [secondRecord]"
    unfolding o
    by (simp add: settleNext_def settle_def afterRender_def syncEffect_def
          syncOfflineData_start_def setPendingAttendance_def markAttendance_def Let_def
          initialSystem_def exampleApi_def)
  have t: "handleOnline (handleOffline (syncEffect startedOnline)) =
     (initialSystem False (exampleApi exampleClock))
       \<lparr>pendingAttendance := exampleQueue,
        firstRender := \<lparr>render_isOffline = False, render_pendingAttendance = exampleQueue\<rparr>,
        inFlight := [exampleQueue, exampleQueue]\<rparr>"
    by (simp add: startedOnline_def mountScanner_def currentRender_def handleOnline_eq
          handleOffline_eq syncEffect_def syncOfflineData_start_def initialSystem_def
          exampleQueue_def)
  have u: "map AttendanceData.truncate (attendanceRecords (remote
        (settleNext markAttendance (settleNext markAttendance
           (handleOnline (handleOffline (syncEffect startedOnline)))))))
       = exampleQueue @ exampleQueue
     \<and> pendingAttendance (settleNext markAttendance (settleNext markAttendance
           (handleOnline (handleOffline (syncEffect startedOnline))))) = []"
    unfolding t
    by (simp add: settleNext_def settle_def afterRender_def syncEffect_def
          syncOfflineData_start_def setPendingAttendance_def markAttendance_def Let_def
          initialSystem_def exampleApi_def exampleQueue_def pendingOf_def)
  have i: "inFlight (handleOnline (handleOffline (syncEffect startedOnline)))
       = [exampleQueue, exampleQueue]"
    unfolding t by simp
  have a1: "isOffline afterFirstScan \<and> pendingAttendance afterFirstScan = [firstRecord]
     \<and> message afterFirstScan = ''You are offline. Attendance saved locally.''"
    unfolding a by (simp add: initialSystem_def)
  have b1: "isOffline afterSecondScan \<and> pendingAttendance afterSecondScan = [secondRecord]
     \<and> message afterSecondScan = ''You are offline. Attendance saved locally.''"
    unfolding b by (simp add: initialSystem_def)
  have o1: "inFlight (handleOnline afterSecondScan) = [[secondRecord]]"
    unfolding o by simp
  from a1 b1 n o1 s i u show ?thesis by simp
qed

end
